(* ===== verification/Prelude.thy ===== *)
theory Prelude
  imports Main
begin

text \<open>
  Shared vocabulary of the development: the names of the model's basic types, the
  lemma collections the component theories fill, and generic lemmas on lists and on
  runs of an option-valued step function. The step-function lemmas are stated over
  type variables for the event and the state, so any component whose operations are
  an option-valued step function (here the React host of \<open>React_Host\<close>) gets them
  by instantiation.
\<close>

named_theorems effect_simps
  "equations evaluating the ShopifyCookieBanner effect on one branch"
named_theorems host_simps
  "equations evaluating one step of the React host"

type_synonym obj_ref = nat
  \<comment> \<open>the identity of a JavaScript object; React compares effect dependencies by
      \<open>Object.is\<close>, i.e. by identity, not by contents\<close>
type_synonym generation = nat
  \<comment> \<open>the number of the mount a component instance belongs to\<close>

subsection \<open>Runs of an option-valued step function\<close>

text \<open>
  \<open>None\<close> is an event the host cannot receive in this state (a re-render of an
  unmounted component, say); a run stops there, as a host would refuse the event.
\<close>

fun run_events :: "('e \<Rightarrow> 's \<Rightarrow> 's option) \<Rightarrow> 'e list \<Rightarrow> 's \<Rightarrow> 's option" where
  "run_events step [] s = Some s"
| "run_events step (e # es) s =
     (case step e s of None \<Rightarrow> None | Some s' \<Rightarrow> run_events step es s')"

lemma run_events_append [simp]:
  "run_events step (xs @ ys) s = Option.bind (run_events step xs s) (run_events step ys)"
  by (induction xs arbitrary: s) (auto split: option.splits)

lemma run_events_Cons_SomeE:
  assumes "run_events step (e # es) s = Some t"
  obtains s' where "step e s = Some s'" and "run_events step es s' = Some t"
  using assms by (auto split: option.splits)

lemma run_events_preserves:
  assumes step_inv: "\<And>e s s'. I s \<Longrightarrow> step e s = Some s' \<Longrightarrow> I s'"
    and "I s" and "run_events step es s = Some t"
  shows "I t"
  using assms(2,3)
proof (induction es arbitrary: s)
  case Nil
  then show ?case by simp
next
  case (Cons e es)
  from Cons.prems(2) obtain s' where "step e s = Some s'" and "run_events step es s' = Some t"
    by (rule run_events_Cons_SomeE)
  with Cons.prems(1) step_inv Cons.IH show ?case by blast
qed

text \<open>
  A relation between start and end state that every accepted step of an allowed event
  keeps, and that is reflexive and transitive, holds across a whole run of allowed
  events (frame conditions, monotone logs).
\<close>

lemma run_events_rel:
  assumes step_rel: "\<And>e s s'. P e \<Longrightarrow> step e s = Some s' \<Longrightarrow> R s s'"
    and refl: "\<And>s. R s s" and trans: "\<And>a b c. R a b \<Longrightarrow> R b c \<Longrightarrow> R a c"
    and "\<forall>e \<in> set es. P e" and "run_events step es s = Some t"
  shows "R s t"
  using assms(4,5)
proof (induction es arbitrary: s)
  case Nil
  then show ?case by (simp add: refl)
next
  case (Cons e es)
  from Cons.prems(2) obtain s' where "step e s = Some s'" and "run_events step es s' = Some t"
    by (rule run_events_Cons_SomeE)
  with Cons.prems(1) step_rel Cons.IH trans show ?case by (meson list.set_intros)
qed

subsection \<open>Lists\<close>

lemma length_filter_map_const [simp]:
  "length (filter (\<lambda>c. fst c = g) (map (Pair h) xs)) = (if g = h then length xs else 0)"
  by (induction xs) auto

end
