(* ===== verification/Banner_Types.thy ===== *)
theory Banner_Types
  imports Prelude
begin

text \<open>
  The data of \<open>src/app/components/ShopifyCookieBanner.tsx\<close>: the props type
  \<open>PrivacyConsentBannerProps\<close> (lines 12--17), the runtime value of the global
  \<open>window.privacyBanner\<close> that the \<open>declare global\<close> block types (lines 4--10), and the
  JavaScript semantics of the two expressions the component evaluates on that value:
  the truthiness test \<open>!window?.privacyBanner\<close> and the optional call
  \<open>window?.privacyBanner?.loadBanner(props)\<close>.
\<close>

record privacy_consent_banner_props =
  checkoutRootDomain :: string
  shopDomain :: string
  storefrontAccessToken :: string
  storefrontRootDomain :: string

text \<open>
  The declaration types \<open>window.privacyBanner\<close> as an object with a function member
  \<open>loadBanner\<close>, but at run time the global is whatever the external script has left
  there, and before the script has run it is \<open>undefined\<close>. The model keeps every case
  the component's expressions distinguish: a nullish value (\<open>undefined\<close>,
  \<open>null\<close>), another falsy value (\<open>false\<close>, \<open>0\<close>, \<open>''\<close>, \<open>NaN\<close>), and a
  truthy value, with what its \<open>loadBanner\<close> member is. A callable \<open>loadBanner\<close> is
  opaque; what matters to the component is whether the call returns or throws.
\<close>

datatype load_banner_behaviour = Returns | Throws

datatype load_banner_member =
    LoadBannerFn load_banner_behaviour
  | NotAFunction  \<comment> \<open>missing (\<open>undefined\<close>) or not callable\<close>

datatype privacy_banner_value =
    PBUndefined
  | PBNull
  | PBFalsy
  | PBTruthy load_banner_member

fun js_truthy :: "privacy_banner_value \<Rightarrow> bool" where
  "js_truthy PBUndefined = False"
| "js_truthy PBNull = False"
| "js_truthy PBFalsy = False"
| "js_truthy (PBTruthy _) = True"

text \<open>
  \<open>a?.loadBanner(x)\<close>: if \<open>a\<close> is nullish the whole call expression short-circuits to
  \<open>undefined\<close> and nothing is called; otherwise the member is read (on a falsy
  primitive it is \<open>undefined\<close>) and called, and calling a non-function throws a
  \<open>TypeError\<close>. The \<open>?.\<close> guards the object only, not the call.
\<close>

datatype call_outcome =
    ShortCircuit
  | CallTypeError
  | Invoked load_banner_behaviour

fun optional_load_banner_call :: "privacy_banner_value \<Rightarrow> call_outcome" where
  "optional_load_banner_call PBUndefined = ShortCircuit"
| "optional_load_banner_call PBNull = ShortCircuit"
| "optional_load_banner_call PBFalsy = CallTypeError"
| "optional_load_banner_call (PBTruthy (LoadBannerFn b)) = Invoked b"
| "optional_load_banner_call (PBTruthy NotAFunction) = CallTypeError"

text \<open>The value the external script installs: an object with a working \<open>loadBanner\<close>.\<close>

abbreviation banner_ready :: privacy_banner_value where
  "banner_ready \<equiv> PBTruthy (LoadBannerFn Returns)"

text \<open>The configuration of the spec's worked scenario (section 8).\<close>

definition spec_example_config :: privacy_consent_banner_props where
  "spec_example_config =
     \<lparr>checkoutRootDomain = ''checkout.example.com'', shopDomain = ''shop.example.com'',
      storefrontAccessToken = ''tok123'', storefrontRootDomain = ''example.com''\<rparr>"

lemma js_truthy_iff: "js_truthy v \<longleftrightarrow> (\<exists>m. v = PBTruthy m)"
  by (cases v) auto

end
