(* ===== verification/React_Host.thy ===== *)
theory React_Host
  imports Cookie_Banner
begin

text \<open>
  How React runs \<open>ShopifyCookieBanner\<close> (\<open>src/app/components/ShopifyCookieBanner.tsx\<close>,
  lines 26--45) in the browser. A mounted instance owns the ref created by
  \<open>useRef(false)\<close> (line 27) and the dependency list \<open>[props]\<close> of its effect
  (line 35). The host receives four kinds of events: a mount, a re-render with a props
  object, an unmount, and an assignment to \<open>window.privacyBanner\<close> by the external
  script (or anything else on the page). React semantics, which is not code of this
  repository, is modelled from the spec and React's documented behaviour:
  \<^item> on mount the ref is \<open>false\<close>, the rendered \<open>script\<close> element is inserted into the
    document, and the effect runs (a \<open>script\<close> element React creates on the client is
    inert: it is not fetched, so inserting it does not load the external script; that
    happens, if at all, through the server-rendered tag, and the model leaves it to the
    \<open>SetPrivacyBanner\<close> event);
  \<^item> on a re-render the effect runs again only when the props object is not the one of
    its last run (\<open>Object.is\<close> on the single dependency);
  \<^item> on unmount the instance and its ref are discarded and the element is removed;
  \<^item> an exception thrown by an effect is not caught by the component; React unmounts the
    tree (or hands it to an error boundary, which also unmounts the component).
  Commit and effect are one atomic step: between them nothing of the component's state
  is read, so an assignment to the global in between has the same effect as one before.
\<close>

record component_instance =
  loaded_ref :: bool        \<comment> \<open>\<open>loaded.current\<close>\<close>
  effect_deps :: obj_ref    \<comment> \<open>the props object the effect last ran with\<close>

record host_state =
  mounted_instance :: "component_instance option"
  window_privacy_banner :: privacy_banner_value
  load_banner_calls :: "(generation \<times> privacy_consent_banner_props) list"
    \<comment> \<open>every invocation of \<open>loadBanner\<close>, tagged with the mount it came from\<close>
  uncaught_errors :: "effect_error list"
  document_scripts :: "script_element list"
  mount_count :: generation

datatype host_event =
    Mount obj_ref privacy_consent_banner_props
  | Rerender obj_ref privacy_consent_banner_props
  | Unmount
  | SetPrivacyBanner privacy_banner_value

definition unmount_component :: "host_state \<Rightarrow> host_state" where
  "unmount_component s =
     s\<lparr>mounted_instance := None, document_scripts := remove1 consent_script (document_scripts s)\<rparr>"

text \<open>
  Running the effect for instance \<open>i\<close> (whose dependency is already the current props
  object): the ref takes the effect's final value, the calls are logged under the
  current mount, and an exception unmounts the component.
\<close>

definition commit_effect ::
  "privacy_consent_banner_props \<Rightarrow> component_instance \<Rightarrow> host_state \<Rightarrow> host_state" where
  "commit_effect props i s =
     (let out = shopify_cookie_banner_effect (window_privacy_banner s) (loaded_ref i) props;
          s' = s\<lparr>mounted_instance := Some (i\<lparr>loaded_ref := loaded_after out\<rparr>),
                 load_banner_calls :=
                   load_banner_calls s @ map (Pair (mount_count s)) (load_banner_args out)\<rparr>
      in case effect_status out of
           Inr _ \<Rightarrow> s'
         | Inl e \<Rightarrow> unmount_component (s'\<lparr>uncaught_errors := uncaught_errors s @ [e]\<rparr>))"

definition mount_component ::
  "obj_ref \<Rightarrow> privacy_consent_banner_props \<Rightarrow> host_state \<Rightarrow> host_state" where
  "mount_component pid props s =
     commit_effect props \<lparr>loaded_ref = False, effect_deps = pid\<rparr>
       (s\<lparr>mount_count := Suc (mount_count s),
          document_scripts := document_scripts s @ [consent_script]\<rparr>)"

fun host_step :: "host_event \<Rightarrow> host_state \<Rightarrow> host_state option" where
  "host_step (Mount pid props) s =
     (case mounted_instance s of
        None \<Rightarrow> Some (mount_component pid props s)
      | Some _ \<Rightarrow> None)"
| "host_step (Rerender pid props) s =
     (case mounted_instance s of
        None \<Rightarrow> None
      | Some i \<Rightarrow>
          if pid = effect_deps i then Some s
          else Some (commit_effect props (i\<lparr>effect_deps := pid\<rparr>) s))"
| "host_step Unmount s =
     (case mounted_instance s of
        None \<Rightarrow> None
      | Some _ \<Rightarrow> Some (unmount_component s))"
| "host_step (SetPrivacyBanner v) s = Some (s\<lparr>window_privacy_banner := v\<rparr>)"

fun_cases host_step_MountE: "host_step (Mount pid props) s = Some t"
fun_cases host_step_RerenderE: "host_step (Rerender pid props) s = Some t"
fun_cases host_step_UnmountE: "host_step Unmount s = Some t"

definition initial_host :: "script_element list \<Rightarrow> privacy_banner_value \<Rightarrow> host_state" where
  "initial_host ds pb =
     \<lparr>mounted_instance = None, window_privacy_banner = pb, load_banner_calls = [],
      uncaught_errors = [], document_scripts = ds, mount_count = 0\<rparr>"

inductive reachable :: "host_state \<Rightarrow> bool" where
  start: "consent_script \<notin> set ds \<Longrightarrow> reachable (initial_host ds pb)"
| step: "reachable s \<Longrightarrow> host_step e s = Some s' \<Longrightarrow> reachable s'"

definition gen_calls :: "host_state \<Rightarrow> generation \<Rightarrow> nat" where
  "gen_calls s g = length (filter (\<lambda>c. fst c = g) (load_banner_calls s))"

text \<open>A mounted first instance with ref \<open>l\<close> and dependency \<open>0\<close>, global \<open>pb\<close>.\<close>

definition fresh_mounted :: "privacy_banner_value \<Rightarrow> bool \<Rightarrow> host_state" where
  "fresh_mounted pb l =
     \<lparr>mounted_instance = Some \<lparr>loaded_ref = l, effect_deps = 0\<rparr>, window_privacy_banner = pb,
      load_banner_calls = [], uncaught_errors = [], document_scripts = [consent_script],
      mount_count = 1\<rparr>"

subsection \<open>The host invariant\<close>

text \<open>
  Every logged call belongs to a mount that has happened; no mount has logged more than
  one call; a mounted instance's ref is set exactly when its mount has logged a call;
  the document holds the consent script exactly while the component is mounted; and
  the script was requested once per mount. The flag clause is what makes the
  first two inductive: without it a re-render could not tell that a call is still to
  come.
\<close>

definition ready_to_commit :: "host_state \<Rightarrow> component_instance \<Rightarrow> bool" where
  "ready_to_commit s i \<longleftrightarrow>
     (\<forall>c \<in> set (load_banner_calls s). 0 < fst c \<and> fst c \<le> mount_count s) \<and>
     (\<forall>g. gen_calls s g \<le> 1) \<and> 0 < mount_count s \<and>
     (loaded_ref i \<longleftrightarrow> gen_calls s (mount_count s) = 1) \<and>
     count_list (document_scripts s) consent_script = 1"

definition host_inv :: "host_state \<Rightarrow> bool" where
  "host_inv s \<longleftrightarrow>
     (case mounted_instance s of
        Some i \<Rightarrow> ready_to_commit s i
      | None \<Rightarrow>
          (\<forall>c \<in> set (load_banner_calls s). 0 < fst c \<and> fst c \<le> mount_count s) \<and>
          (\<forall>g. gen_calls s g \<le> 1) \<and>
          count_list (document_scripts s) consent_script = 0)"

subsection \<open>The abstract contract: two phases\<close>

text \<open>
  The spec's contract for one mounted instance: two phases, and a single one-way
  transition, allowed only while the global initializer is present, from
  not-initialized to initialized. The instance's phase is its ref.
\<close>

datatype banner_phase = NotInitialized | Initialized

inductive phase_step :: "bool \<Rightarrow> banner_phase \<Rightarrow> banner_phase \<Rightarrow> bool" where
  phase_stay: "phase_step present ph ph"
| phase_init: "present \<Longrightarrow> phase_step present NotInitialized Initialized"

definition banner_phase_of :: "component_instance \<Rightarrow> banner_phase" where
  "banner_phase_of i = (if loaded_ref i then Initialized else NotInitialized)"

inductive_simps phase_step_simps: "phase_step present ph ph'"

text \<open>Phases are ordered by progress, so that monotonicity is \<open>\<le>\<close>.\<close>

instantiation banner_phase :: linorder
begin

definition less_eq_banner_phase :: "banner_phase \<Rightarrow> banner_phase \<Rightarrow> bool" where
  "less_eq_banner_phase a b \<longleftrightarrow> a = NotInitialized \<or> b = Initialized"

definition less_banner_phase :: "banner_phase \<Rightarrow> banner_phase \<Rightarrow> bool" where
  "less_banner_phase a b \<longleftrightarrow> a = NotInitialized \<and> b = Initialized"

instance
proof
  fix a b c :: banner_phase
  show "a < b \<longleftrightarrow> a \<le> b \<and> \<not> b \<le> a"
    by (cases a; cases b) (simp_all add: less_eq_banner_phase_def less_banner_phase_def)
  show "a \<le> a" by (cases a) (simp_all add: less_eq_banner_phase_def)
  show "a \<le> b \<Longrightarrow> b \<le> c \<Longrightarrow> a \<le> c"
    by (cases a; cases b; cases c) (simp_all add: less_eq_banner_phase_def)
  show "a \<le> b \<Longrightarrow> b \<le> a \<Longrightarrow> a = b"
    by (cases a; cases b) (simp_all add: less_eq_banner_phase_def)
  show "a \<le> b \<or> b \<le> a"
    by (cases a; cases b) (simp_all add: less_eq_banner_phase_def)
qed

end

subsection \<open>What each operation does to each field\<close>

lemma commit_effect_fields [host_simps]:
  fixes s :: host_state and i :: component_instance and props :: privacy_consent_banner_props
  defines "out \<equiv> shopify_cookie_banner_effect (window_privacy_banner s) (loaded_ref i) props"
  shows "mount_count (commit_effect props i s) = mount_count s"
    and "window_privacy_banner (commit_effect props i s) = window_privacy_banner s"
    and "load_banner_calls (commit_effect props i s) =
           load_banner_calls s @ map (Pair (mount_count s)) (load_banner_args out)"
    and "mounted_instance (commit_effect props i s) =
           (if effect_status out = Inr () then Some (i\<lparr>loaded_ref := loaded_after out\<rparr>) else None)"
    and "document_scripts (commit_effect props i s) =
           (if effect_status out = Inr () then document_scripts s
            else remove1 consent_script (document_scripts s))"
    and "uncaught_errors (commit_effect props i s) =
           uncaught_errors s @ (case effect_status out of Inl e \<Rightarrow> [e] | Inr _ \<Rightarrow> [])"
  unfolding out_def commit_effect_def Let_def unmount_component_def
  by (simp_all split: sum.splits)

lemma unmount_component_fields [host_simps]:
  "mounted_instance (unmount_component s) = None"
  "document_scripts (unmount_component s) = remove1 consent_script (document_scripts s)"
  "load_banner_calls (unmount_component s) = load_banner_calls s"
  "mount_count (unmount_component s) = mount_count s"
  "window_privacy_banner (unmount_component s) = window_privacy_banner s"
  by (simp_all add: unmount_component_def)

lemma mount_component_fields [host_simps]:
  "mount_count (mount_component pid props s) = Suc (mount_count s)"
  "window_privacy_banner (mount_component pid props s) = window_privacy_banner s"
  by (simp_all add: mount_component_def host_simps)

lemma gen_calls_append_map [simp]:
  "gen_calls (s\<lparr>load_banner_calls := load_banner_calls s @ map (Pair h) xs\<rparr>) g =
     gen_calls s g + (if g = h then length xs else 0)"
  by (simp add: gen_calls_def)

lemma gen_calls_beyond:
  "\<forall>c \<in> set (load_banner_calls s). fst c \<le> n \<Longrightarrow> n < g \<Longrightarrow> gen_calls s g = 0"
  by (fastforce simp: gen_calls_def filter_empty_conv)

lemma commit_effect_inv:
  assumes "ready_to_commit s i"
  shows "host_inv (commit_effect props i s)"
proof (cases "loaded_ref i")
  case True
  then have "shopify_cookie_banner_effect (window_privacy_banner s) (loaded_ref i) props =
               \<lparr>effect_status = Inr (), loaded_after = True, load_banner_args = []\<rparr>"
    by (simp add: effect_early_return)
  with assms True show ?thesis
    by (simp add: host_inv_def ready_to_commit_def host_simps gen_calls_def)
next
  case False
  with assms have zero: "gen_calls s (mount_count s) = 0"
    by (auto simp: ready_to_commit_def le_Suc_eq)
  show ?thesis
  proof (cases "window_privacy_banner s" rule: optional_load_banner_call.cases)
    case (4 b)
    with assms False zero show ?thesis
      by (cases b) (auto simp: host_inv_def ready_to_commit_def host_simps effect_simps
                               gen_calls_def)
  qed (use assms False zero in \<open>auto simp: host_inv_def ready_to_commit_def host_simps
                                   effect_simps gen_calls_def\<close>)
qed

lemma ready_to_commit_deps [simp]:
  "ready_to_commit s (i\<lparr>effect_deps := pid\<rparr>) = ready_to_commit s i"
  by (simp add: ready_to_commit_def)

lemma mount_ready_to_commit:
  assumes "host_inv s" and "mounted_instance s = None"
  shows "ready_to_commit
           (s\<lparr>mount_count := Suc (mount_count s),
              document_scripts := document_scripts s @ [consent_script]\<rparr>)
           \<lparr>loaded_ref = False, effect_deps = pid\<rparr>"
proof -
  from assms have "gen_calls s (Suc (mount_count s)) = 0"
    by (intro gen_calls_beyond [of s "mount_count s"]) (auto simp: host_inv_def)
  with assms show ?thesis
    by (auto simp: host_inv_def ready_to_commit_def gen_calls_def replicate_append_same)
qed

lemma host_inv_set_global [simp]:
  "host_inv (s\<lparr>window_privacy_banner := v\<rparr>) = host_inv s"
  by (simp add: host_inv_def ready_to_commit_def gen_calls_def split: option.splits)

lemma host_step_inv:
  assumes "host_inv s" and "host_step e s = Some s'"
  shows "host_inv s'"
  using assms
proof (cases e)
  case (Mount pid props)
  with assms show ?thesis
    by (auto simp: mount_component_def split: option.splits
             intro: commit_effect_inv mount_ready_to_commit)
next
  case (Rerender pid props)
  with assms(2) obtain i where i: "mounted_instance s = Some i"
    by (auto split: option.splits)
  with assms(1) have "ready_to_commit s (i\<lparr>effect_deps := pid\<rparr>)"
    by (simp add: host_inv_def)
  with assms Rerender i show ?thesis
    by (auto intro: commit_effect_inv split: if_splits)
next
  case Unmount
  with assms show ?thesis
    by (force simp: host_inv_def ready_to_commit_def host_simps gen_calls_def
             split: option.splits)
next
  case (SetPrivacyBanner v)
  with assms show ?thesis by auto
qed

lemma initial_host_inv:
  "consent_script \<notin> set ds \<Longrightarrow> host_inv (initial_host ds pb)"
  by (simp add: host_inv_def initial_host_def gen_calls_def count_list_0_iff)

lemma reachable_host_inv: "reachable s \<Longrightarrow> host_inv s"
proof (induction rule: reachable.induct)
  case (start ds pb)
  then show ?case by (rule initial_host_inv)
next
  case (step s e s')
  then show ?case by (blast intro: host_step_inv)
qed

lemma gen_calls_eq_0_iff:
  "gen_calls s g = 0 \<longleftrightarrow> (\<forall>p. (g, p) \<notin> set (load_banner_calls s))"
  by (auto simp: gen_calls_def filter_empty_conv)

lemma commit_effect_unloaded_absent:
  "\<not> js_truthy (window_privacy_banner s) \<Longrightarrow>
   commit_effect props i s = s\<lparr>mounted_instance := Some i\<rparr>"
  by (simp add: commit_effect_def effect_early_return)

lemma commit_effect_loaded:
  "loaded_ref i \<Longrightarrow> commit_effect props i s = s\<lparr>mounted_instance := Some i\<rparr>"
  by (simp add: commit_effect_def effect_early_return)

lemma commit_effect_fresh:
  assumes "\<not> loaded_ref i"
  shows "commit_effect props i s =
    (case window_privacy_banner s of
       PBTruthy (LoadBannerFn Returns) \<Rightarrow>
         s\<lparr>mounted_instance := Some (i\<lparr>loaded_ref := True\<rparr>),
           load_banner_calls := load_banner_calls s @ [(mount_count s, props)]\<rparr>
     | PBTruthy (LoadBannerFn Throws) \<Rightarrow>
         unmount_component
           (s\<lparr>load_banner_calls := load_banner_calls s @ [(mount_count s, props)],
              uncaught_errors := uncaught_errors s @ [LoadBannerError]\<rparr>)
     | PBTruthy NotAFunction \<Rightarrow>
         unmount_component (s\<lparr>uncaught_errors := uncaught_errors s @ [TypeError]\<rparr>)
     | _ \<Rightarrow> s\<lparr>mounted_instance := Some i\<rparr>)"
proof -
  from assms have "i\<lparr>loaded_ref := False\<rparr> = i" by simp
  with assms show ?thesis
    by (cases "window_privacy_banner s" rule: optional_load_banner_call.cases)
       (auto simp: commit_effect_def effect_fresh effect_early_return unmount_component_def
             split: load_banner_behaviour.splits)
qed

lemmas host_eval_simps =
  mount_component_def commit_effect_loaded commit_effect_fresh unmount_component_def

lemma reachable_run_events:
  assumes "reachable s" and "run_events host_step evs s = Some t"
  shows "reachable t"
  by (rule run_events_preserves [where I = reachable, OF _ assms])
     (blast intro: reachable.step)

text \<open>
  A step that finds the instance mounted and leaves it mounted is a re-render or an
  assignment to the global: the mount is the same, and the ref either keeps its value
  or goes from unset to set, the latter only when the global is a working initializer.
\<close>

lemma host_step_mounted_cases:
  assumes "host_step e s = Some s'"
    and "mounted_instance s = Some i" and "mounted_instance s' = Some i'"
  shows "mount_count s' = mount_count s \<and>
         (loaded_ref i' = loaded_ref i \<or>
          \<not> loaded_ref i \<and> loaded_ref i' \<and> window_privacy_banner s = banner_ready)"
proof (cases e)
  case (Rerender pid props)
  show ?thesis
  proof (cases "pid = effect_deps i \<or> loaded_ref i")
    case True
    with assms Rerender show ?thesis
      by (auto simp: commit_effect_loaded split: if_splits)
  next
    case False
    with assms Rerender show ?thesis
      by (cases "window_privacy_banner s" rule: optional_load_banner_call.cases)
         (auto simp: commit_effect_fresh host_simps split: load_banner_behaviour.splits)
  qed
qed (use assms in \<open>auto simp: host_simps split: option.splits\<close>)

lemma phase_of_le_iff:
  "banner_phase_of i \<le> banner_phase_of i' \<longleftrightarrow> (loaded_ref i \<longrightarrow> loaded_ref i')"
  by (simp add: banner_phase_of_def less_eq_banner_phase_def)

subsection \<open>Properties of the component under React\<close>

text \<open>
  C1. Whatever happens, no mounted instance calls \<open>loadBanner\<close> more than once: for
  every mount \<open>g\<close>, at most one logged call carries \<open>g\<close>.
\<close>

theorem at_most_one_load_banner_call_per_mount:
  assumes "reachable s"
  shows "length (filter (\<lambda>c. fst c = g) (load_banner_calls s)) \<le> 1"
proof -
  from assms have "host_inv s" by (rule reachable_host_inv)
  then show ?thesis
    by (auto simp: host_inv_def ready_to_commit_def gen_calls_def split: option.splits)
qed

text \<open>
  C2. A re-render with a new props object, of an instance that has not loaded the
  banner, while the initializer is present, calls \<open>loadBanner\<close> once with exactly
  that render's props and sets the ref; nothing else changes.
\<close>

theorem available_rerender_calls_load_banner:
  assumes "mounted_instance s = Some i" and "\<not> loaded_ref i"
    and "window_privacy_banner s = banner_ready" and "pid \<noteq> effect_deps i"
  shows "host_step (Rerender pid props) s =
           Some (s\<lparr>mounted_instance := Some \<lparr>loaded_ref = True, effect_deps = pid\<rparr>,
                   load_banner_calls := load_banner_calls s @ [(mount_count s, props)]\<rparr>)"
  using assms by (simp add: commit_effect_fresh)

text \<open>
  C3. Once the ref is set, no re-render calls \<open>loadBanner\<close> again, whatever the new
  props are: the re-render only records the new dependency.
\<close>

theorem loaded_rerender_is_noop:
  assumes "mounted_instance s = Some i" and "loaded_ref i"
  shows "host_step (Rerender pid props) s =
           Some (s\<lparr>mounted_instance := Some (i\<lparr>effect_deps := pid\<rparr>)\<rparr>)"
proof (cases "pid = effect_deps i")
  case True
  then have "s\<lparr>mounted_instance := Some (i\<lparr>effect_deps := pid\<rparr>)\<rparr> = s"
    using assms(1) by simp
  with True assms(1) show ?thesis by simp
next
  case False
  with assms show ?thesis by (simp add: commit_effect_loaded)
qed

text \<open>
  C4. While the global initializer is absent (falsy) and nothing makes it truthy, no
  sequence of mounts, re-renders and unmounts calls \<open>loadBanner\<close>, and no mounted
  instance ever has its ref set: the early return of line 30 leaves \<open>loaded\<close> alone,
  so the banner is still loaded once the initializer appears.
\<close>

lemma host_step_absent_no_call:
  assumes "\<forall>v. e = SetPrivacyBanner v \<longrightarrow> \<not> js_truthy v"
    and "host_step e s = Some t" and "\<not> js_truthy (window_privacy_banner s)"
    and "\<forall>i. mounted_instance s = Some i \<longrightarrow> \<not> loaded_ref i"
  shows "\<not> js_truthy (window_privacy_banner t) \<and> load_banner_calls t = load_banner_calls s \<and>
         (\<forall>i. mounted_instance t = Some i \<longrightarrow> \<not> loaded_ref i)"
proof (cases e)
  case (Mount pid props)
  with assms(2,3) show ?thesis
    by (auto simp: mount_component_def commit_effect_unloaded_absent split: option.splits)
next
  case (Rerender pid props)
  with assms(2) obtain i where i: "mounted_instance s = Some i"
    by (auto split: option.splits)
  with assms(2-4) Rerender show ?thesis
    by (auto simp: commit_effect_unloaded_absent split: if_splits)
next
  case Unmount
  with assms(2,3) show ?thesis
    by (auto simp: host_simps split: option.splits)
next
  case (SetPrivacyBanner v)
  with assms(2) have "t = s\<lparr>window_privacy_banner := v\<rparr>" by simp
  with assms(1,4) SetPrivacyBanner show ?thesis by simp
qed

theorem absent_initializer_never_called:
  assumes "run_events host_step evs s = Some t"
    and "\<not> js_truthy (window_privacy_banner s)"
    and "\<forall>e \<in> set evs. \<forall>v. e = SetPrivacyBanner v \<longrightarrow> \<not> js_truthy v"
    and "\<forall>i. mounted_instance s = Some i \<longrightarrow> \<not> loaded_ref i"
  shows "load_banner_calls t = load_banner_calls s \<and>
         (\<forall>i. mounted_instance t = Some i \<longrightarrow> \<not> loaded_ref i)"
proof -
  let ?Q = "\<lambda>a. \<not> js_truthy (window_privacy_banner a) \<and>
                 (\<forall>i. mounted_instance a = Some i \<longrightarrow> \<not> loaded_ref i)"
  have "?Q s \<longrightarrow> ?Q t \<and> load_banner_calls t = load_banner_calls s"
  proof (rule run_events_rel [where P = "\<lambda>e. \<forall>v. e = SetPrivacyBanner v \<longrightarrow> \<not> js_truthy v",
          OF _ _ _ assms(3,1)])
    fix e a b
    assume "\<forall>v. e = SetPrivacyBanner v \<longrightarrow> \<not> js_truthy v" and "host_step e a = Some b"
    then show "?Q a \<longrightarrow> ?Q b \<and> load_banner_calls b = load_banner_calls a"
      using host_step_absent_no_call by blast
  qed (blast, metis)
  with assms(2,4) show ?thesis by blast
qed

text \<open>
  C5. Unmounting and mounting again discards the ref: the new instance calls
  \<open>loadBanner\<close> once more, under the new mount, whether or not the old one had.
\<close>

theorem remount_calls_load_banner_again:
  assumes "mounted_instance s = Some i" and "window_privacy_banner s = banner_ready"
  shows "run_events host_step [Unmount, Mount pid props] s =
           Some (s\<lparr>mounted_instance := Some \<lparr>loaded_ref = True, effect_deps = pid\<rparr>,
                   load_banner_calls := load_banner_calls s @ [(Suc (mount_count s), props)],
                   mount_count := Suc (mount_count s),
                   document_scripts :=
                     remove1 consent_script (document_scripts s) @ [consent_script]\<rparr>)"
  using assms
  by (simp add: mount_component_def commit_effect_fresh unmount_component_def)

text \<open>
  C6. The ref is an exact record of the instance's history: it is set exactly when
  \<open>loadBanner\<close> has been called for the current mount.
\<close>

theorem loaded_ref_iff_called:
  assumes "reachable s" and "mounted_instance s = Some i"
  shows "loaded_ref i \<longleftrightarrow> (\<exists>p. (mount_count s, p) \<in> set (load_banner_calls s))"
proof -
  from assms have "ready_to_commit s i"
    using reachable_host_inv by (fastforce simp: host_inv_def)
  then have "gen_calls s (mount_count s) \<le> 1"
    and "loaded_ref i \<longleftrightarrow> gen_calls s (mount_count s) = 1"
    by (simp_all add: ready_to_commit_def)
  then have "loaded_ref i \<longleftrightarrow> gen_calls s (mount_count s) \<noteq> 0"
    by linarith
  then show ?thesis by (simp add: gen_calls_eq_0_iff)
qed

text \<open>
  C7. When the global is truthy but its \<open>loadBanner\<close> is not a function, the call
  expression of line 33 throws a \<open>TypeError\<close> before anything is called: the ref
  stays unset, nothing is logged as a call, and the uncaught error unmounts the
  component.
\<close>

theorem missing_load_banner_raises_type_error:
  assumes "mounted_instance s = Some i" and "\<not> loaded_ref i"
    and "window_privacy_banner s = PBTruthy NotAFunction" and "pid \<noteq> effect_deps i"
  shows "host_step (Rerender pid props) s =
           Some (unmount_component (s\<lparr>uncaught_errors := uncaught_errors s @ [TypeError]\<rparr>))"
  using assms by (simp add: commit_effect_fresh)

text \<open>
  C8. When \<open>loadBanner\<close> throws, the call has happened (it is logged), but line 34 is
  never reached, so the ref stays unset; the uncaught error unmounts the component.
\<close>

theorem throwing_load_banner_unmounts:
  assumes "mounted_instance s = Some i" and "\<not> loaded_ref i"
    and "window_privacy_banner s = PBTruthy (LoadBannerFn Throws)"
    and "pid \<noteq> effect_deps i"
  shows "host_step (Rerender pid props) s =
           Some (unmount_component
                  (s\<lparr>load_banner_calls := load_banner_calls s @ [(mount_count s, props)],
                     uncaught_errors := uncaught_errors s @ [LoadBannerError]\<rparr>))"
  using assms by (simp add: commit_effect_fresh)

text \<open>
  C9. The effect is re-checked only when the props object changes. If, after the
  mount, the global is assigned (the script loading) and the parent re-renders only
  with the same props object, the instance is never touched and \<open>loadBanner\<close> is
  never called, even though a working initializer is present and the banner has not
  been loaded.
\<close>

theorem banner_not_loaded_without_new_props:
  assumes "mounted_instance s = Some i"
    and "\<forall>e \<in> set evs. (\<exists>v. e = SetPrivacyBanner v) \<or> (\<exists>p. e = Rerender (effect_deps i) p)"
    and "run_events host_step evs s = Some t"
  shows "mounted_instance t = Some i \<and> load_banner_calls t = load_banner_calls s"
proof -
  let ?R = "\<lambda>a b. mounted_instance a = Some i \<longrightarrow>
                  mounted_instance b = Some i \<and> load_banner_calls b = load_banner_calls a"
  have "?R s t"
    by (rule run_events_rel [where P = "\<lambda>e. (\<exists>v. e = SetPrivacyBanner v) \<or>
                                         (\<exists>p. e = Rerender (effect_deps i) p)",
          OF _ _ _ assms(2,3)])
       auto
  with assms(1) show ?thesis by blast
qed

text \<open>
  C10. Refinement of the two-phase contract: every host step that keeps the instance
  mounted is a step of \<open>phase_step\<close> on its phase, with the presence of the global
  (its truthiness, which is what the code tests) as the guard. In particular an
  initialized instance never becomes uninitialized, and it becomes initialized only in
  a step that starts with the initializer present.
\<close>

theorem host_step_refines_phase:
  assumes "host_step e s = Some s'"
    and "mounted_instance s = Some i" and "mounted_instance s' = Some i'"
  shows "phase_step (js_truthy (window_privacy_banner s)) (banner_phase_of i) (banner_phase_of i')"
  using host_step_mounted_cases [OF assms]
  by (auto simp: banner_phase_of_def phase_step_simps)

text \<open>
  C12. Over any run of events that ends in the same mount it started in, the phase
  never decreases: an initialized instance stays initialized for as long as it is
  mounted.
\<close>

theorem phase_monotone_within_mount:
  assumes "run_events host_step evs s = Some t"
    and "mounted_instance s = Some i" and "mounted_instance t = Some i'"
    and "mount_count t = mount_count s"
  shows "banner_phase_of i \<le> banner_phase_of i'"
proof -
  let ?R = "\<lambda>a b. mount_count a \<le> mount_count b \<and>
      (mounted_instance a = None \<longrightarrow> mounted_instance b \<noteq> None \<longrightarrow>
         mount_count a < mount_count b) \<and>
      (\<forall>j j'. mounted_instance a = Some j \<longrightarrow> mounted_instance b = Some j' \<longrightarrow>
         mount_count b = mount_count a \<longrightarrow> banner_phase_of j \<le> banner_phase_of j')"
  have step: "?R a b" if "host_step e a = Some b" for e a b
  proof (cases "mounted_instance a")
    case None
    with that show ?thesis
      by (cases e) (auto simp: host_simps split: option.splits)
  next
    case (Some j)
    show ?thesis
    proof (cases "mounted_instance b")
      case None
      with that Some show ?thesis
        by (cases e) (auto simp: host_simps commit_effect_loaded
                           split: option.splits if_splits)
    next
      case (Some j')
      with host_step_mounted_cases [OF that \<open>mounted_instance a = Some j\<close>]
      show ?thesis using \<open>mounted_instance a = Some j\<close> by (auto simp: phase_of_le_iff)
    qed
  qed
  have "?R s t"
    by (rule run_events_rel [where P = "\<lambda>_. True", OF _ _ _ _ assms(1)])
       (use step in \<open>auto intro: order_trans\<close>)
  with assms(2-4) show ?thesis by blast
qed

lemma host_step_RerenderD:
  assumes "host_step (Rerender pid props) s = Some t" and "mounted_instance s = Some i"
  shows "t = s \<or> t = commit_effect props (i\<lparr>effect_deps := pid\<rparr>) s"
  using assms by (auto split: if_splits)

lemma rerenders_while_absent:
  assumes "run_events host_step (map (case_prod Rerender) rs) s = Some t"
    and "mounted_instance s = Some i" and "\<not> loaded_ref i"
    and "\<not> js_truthy (window_privacy_banner s)"
  shows "\<exists>i'. mounted_instance t = Some i' \<and> \<not> loaded_ref i' \<and>
           load_banner_calls t = load_banner_calls s \<and>
           window_privacy_banner t = window_privacy_banner s \<and> mount_count t = mount_count s"
proof -
  let ?R = "\<lambda>a b. (\<exists>i. mounted_instance a = Some i \<and> \<not> loaded_ref i) \<and>
                  \<not> js_truthy (window_privacy_banner a) \<longrightarrow>
                  (\<exists>i'. mounted_instance b = Some i' \<and> \<not> loaded_ref i') \<and>
                  load_banner_calls b = load_banner_calls a \<and>
                  window_privacy_banner b = window_privacy_banner a \<and>
                  mount_count b = mount_count a"
  have "?R s t"
  proof (rule run_events_rel [where P = "\<lambda>e. \<exists>pid p. e = Rerender pid p", OF _ _ _ _ assms(1)])
    fix e a b
    assume "\<exists>pid p. e = Rerender pid p" and "host_step e a = Some b"
    then show "?R a b"
      by (auto dest!: host_step_RerenderD simp: commit_effect_unloaded_absent)
  qed auto
  with assms(2-4) show ?thesis by auto
qed

lemma rerenders_after_loaded:
  assumes "run_events host_step (map (case_prod Rerender) rs) s = Some t"
    and "mounted_instance s = Some i" and "loaded_ref i"
  shows "load_banner_calls t = load_banner_calls s"
proof -
  let ?R = "\<lambda>a b. (\<exists>i. mounted_instance a = Some i \<and> loaded_ref i) \<longrightarrow>
                  (\<exists>i'. mounted_instance b = Some i' \<and> loaded_ref i') \<and>
                  load_banner_calls b = load_banner_calls a"
  have "?R s t"
  proof (rule run_events_rel [where P = "\<lambda>e. \<exists>pid p. e = Rerender pid p", OF _ _ _ _ assms(1)])
    fix e a b
    assume "\<exists>pid p. e = Rerender pid p" and "host_step e a = Some b"
    then show "?R a b"
      by (auto dest!: host_step_RerenderD simp: commit_effect_loaded)
  qed auto
  with assms(2,3) show ?thesis by auto
qed

subsection \<open>Witnesses\<close>

text \<open>Each property above applied where its hypotheses hold.\<close>

lemma reachable_first_mount:
  "reachable (mount_component 1 spec_example_config (initial_host [] banner_ready))"
  by (rule reachable.step [OF reachable.start [of "[]" banner_ready],
        where e = "Mount 1 spec_example_config"]) (simp_all add: initial_host_def)

theorem at_most_one_load_banner_call_per_mount_witness:
  "reachable (mount_component 1 spec_example_config (initial_host [] banner_ready)) \<and>
   load_banner_calls (mount_component 1 spec_example_config (initial_host [] banner_ready)) =
     [(1, spec_example_config)] \<and>
   length (filter (\<lambda>c. fst c = 1)
     (load_banner_calls (mount_component 1 spec_example_config (initial_host [] banner_ready))))
   \<le> 1"
  using at_most_one_load_banner_call_per_mount [OF reachable_first_mount, of 1]
    reachable_first_mount
  by (simp add: mount_component_def commit_effect_fresh initial_host_def)

theorem available_rerender_calls_load_banner_witness:
  "mounted_instance (fresh_mounted banner_ready False) = Some \<lparr>loaded_ref = False, effect_deps = 0\<rparr> \<and>
   load_banner_calls (the (host_step (Rerender 1 spec_example_config)
                                (fresh_mounted banner_ready False))) = [(1, spec_example_config)]"
  using available_rerender_calls_load_banner
          [of "fresh_mounted banner_ready False" "\<lparr>loaded_ref = False, effect_deps = 0\<rparr>" 1]
  by (simp add: fresh_mounted_def)

theorem loaded_rerender_is_noop_witness:
  "mounted_instance (fresh_mounted banner_ready True) = Some \<lparr>loaded_ref = True, effect_deps = 0\<rparr> \<and>
   load_banner_calls (the (host_step (Rerender 1 spec_example_config)
                                (fresh_mounted banner_ready True))) = []"
  using loaded_rerender_is_noop
          [of "fresh_mounted banner_ready True" "\<lparr>loaded_ref = True, effect_deps = 0\<rparr>" 1]
  by (simp add: fresh_mounted_def)

theorem absent_initializer_never_called_witness:
  "run_events host_step [Mount 1 spec_example_config, Rerender 2 spec_example_config,
                         SetPrivacyBanner PBNull, Rerender 3 spec_example_config]
      (initial_host [] PBUndefined) =
     Some ((initial_host [] PBNull)\<lparr>mounted_instance := Some \<lparr>loaded_ref = False, effect_deps = 3\<rparr>,
             document_scripts := [consent_script], mount_count := 1\<rparr>) \<and>
   load_banner_calls (initial_host [] PBNull) = [] \<and>
   \<not> loaded_ref \<lparr>loaded_ref = False, effect_deps = 3\<rparr>"
proof -
  let ?t = "(initial_host [] PBNull)\<lparr>mounted_instance := Some \<lparr>loaded_ref = False, effect_deps = 3\<rparr>,
             document_scripts := [consent_script], mount_count := 1\<rparr>"
  have run: "run_events host_step [Mount 1 spec_example_config, Rerender 2 spec_example_config,
                         SetPrivacyBanner PBNull, Rerender 3 spec_example_config]
      (initial_host [] PBUndefined) = Some ?t"
    by (simp add: initial_host_def host_eval_simps)
  have "load_banner_calls ?t = load_banner_calls (initial_host [] PBUndefined) \<and>
        (\<forall>i. mounted_instance ?t = Some i \<longrightarrow> \<not> loaded_ref i)"
    by (rule absent_initializer_never_called [OF run]) (simp_all add: initial_host_def)
  with run show ?thesis by (simp add: initial_host_def)
qed

theorem remount_calls_load_banner_again_witness:
  "mounted_instance (fresh_mounted banner_ready True) = Some \<lparr>loaded_ref = True, effect_deps = 0\<rparr> \<and>
   load_banner_calls (the (run_events host_step [Unmount, Mount 5 spec_example_config]
                             (fresh_mounted banner_ready True))) = [(2, spec_example_config)]"
  using remount_calls_load_banner_again
          [of "fresh_mounted banner_ready True" "\<lparr>loaded_ref = True, effect_deps = 0\<rparr>" 5]
  by (simp add: fresh_mounted_def)

theorem loaded_ref_iff_called_witness:
  "reachable (mount_component 1 spec_example_config (initial_host [] banner_ready)) \<and>
   mounted_instance (mount_component 1 spec_example_config (initial_host [] banner_ready)) =
     Some \<lparr>loaded_ref = True, effect_deps = 1\<rparr> \<and>
   (\<exists>p. (1, p) \<in> set (load_banner_calls
                         (mount_component 1 spec_example_config (initial_host [] banner_ready))))"
proof -
  have m: "mounted_instance (mount_component 1 spec_example_config (initial_host [] banner_ready)) =
             Some \<lparr>loaded_ref = True, effect_deps = 1\<rparr>"
    by (simp add: mount_component_def commit_effect_fresh initial_host_def)
  have c: "mount_count (mount_component 1 spec_example_config (initial_host [] banner_ready)) = 1"
    by (simp add: host_simps initial_host_def)
  from loaded_ref_iff_called [OF reachable_first_mount m] c
  show ?thesis using reachable_first_mount m by simp
qed

theorem missing_load_banner_raises_type_error_witness:
  "mounted_instance (fresh_mounted (PBTruthy NotAFunction) False) =
     Some \<lparr>loaded_ref = False, effect_deps = 0\<rparr> \<and>
   the (host_step (Rerender 1 spec_example_config) (fresh_mounted (PBTruthy NotAFunction) False)) =
     \<lparr>mounted_instance = None, window_privacy_banner = PBTruthy NotAFunction,
      load_banner_calls = [], uncaught_errors = [TypeError], document_scripts = [],
      mount_count = 1\<rparr>"
  using missing_load_banner_raises_type_error
          [of "fresh_mounted (PBTruthy NotAFunction) False" "\<lparr>loaded_ref = False, effect_deps = 0\<rparr>" 1]
  by (simp add: fresh_mounted_def unmount_component_def)

theorem throwing_load_banner_unmounts_witness:
  "mounted_instance (fresh_mounted (PBTruthy (LoadBannerFn Throws)) False) =
     Some \<lparr>loaded_ref = False, effect_deps = 0\<rparr> \<and>
   the (host_step (Rerender 1 spec_example_config)
          (fresh_mounted (PBTruthy (LoadBannerFn Throws)) False)) =
     \<lparr>mounted_instance = None, window_privacy_banner = PBTruthy (LoadBannerFn Throws),
      load_banner_calls = [(1, spec_example_config)], uncaught_errors = [LoadBannerError],
      document_scripts = [], mount_count = 1\<rparr>"
  using throwing_load_banner_unmounts
          [of "fresh_mounted (PBTruthy (LoadBannerFn Throws)) False"
              "\<lparr>loaded_ref = False, effect_deps = 0\<rparr>" 1]
  by (simp add: fresh_mounted_def unmount_component_def)

theorem banner_not_loaded_without_new_props_witness:
  "run_events host_step
     [SetPrivacyBanner banner_ready, Rerender 0 spec_example_config,
      Rerender 0 (spec_example_config\<lparr>shopDomain := ''other.example.com''\<rparr>)]
     (fresh_mounted PBUndefined False) =
     Some (fresh_mounted banner_ready False) \<and>
   mounted_instance (fresh_mounted banner_ready False) = Some \<lparr>loaded_ref = False, effect_deps = 0\<rparr> \<and>
   load_banner_calls (fresh_mounted banner_ready False) = []"
proof -
  have run: "run_events host_step
     [SetPrivacyBanner banner_ready, Rerender 0 spec_example_config,
      Rerender 0 (spec_example_config\<lparr>shopDomain := ''other.example.com''\<rparr>)]
     (fresh_mounted PBUndefined False) =
     Some (fresh_mounted banner_ready False)"
    by (simp add: fresh_mounted_def)
  have "mounted_instance (fresh_mounted banner_ready False) = Some \<lparr>loaded_ref = False, effect_deps = 0\<rparr> \<and>
        load_banner_calls (fresh_mounted banner_ready False) =
          load_banner_calls (fresh_mounted PBUndefined False)"
    by (rule banner_not_loaded_without_new_props [OF _ _ run]) (simp_all add: fresh_mounted_def)
  with run show ?thesis by (simp add: fresh_mounted_def)
qed

theorem host_step_refines_phase_witness:
  "host_step (Rerender 1 spec_example_config) (fresh_mounted banner_ready False) =
     Some ((fresh_mounted banner_ready False)
             \<lparr>mounted_instance := Some \<lparr>loaded_ref = True, effect_deps = 1\<rparr>,
              load_banner_calls := [(1, spec_example_config)]\<rparr>) \<and>
   phase_step True NotInitialized Initialized"
proof -
  have step: "host_step (Rerender 1 spec_example_config) (fresh_mounted banner_ready False) =
     Some ((fresh_mounted banner_ready False)
             \<lparr>mounted_instance := Some \<lparr>loaded_ref = True, effect_deps = 1\<rparr>,
              load_banner_calls := [(1, spec_example_config)]\<rparr>)"
    by (simp add: fresh_mounted_def commit_effect_fresh)
  have "phase_step (js_truthy (window_privacy_banner (fresh_mounted banner_ready False)))
          (banner_phase_of \<lparr>loaded_ref = False, effect_deps = 0\<rparr>)
          (banner_phase_of \<lparr>loaded_ref = True, effect_deps = 1\<rparr>)"
    by (rule host_step_refines_phase [OF step]) (simp_all add: fresh_mounted_def)
  with step show ?thesis by (simp add: fresh_mounted_def banner_phase_of_def)
qed

theorem phase_monotone_within_mount_witness:
  "run_events host_step
     [Rerender 1 spec_example_config, SetPrivacyBanner PBUndefined, Rerender 2 spec_example_config]
     (fresh_mounted banner_ready False) =
     Some ((fresh_mounted banner_ready False)
             \<lparr>mounted_instance := Some \<lparr>loaded_ref = True, effect_deps = 2\<rparr>,
              window_privacy_banner := PBUndefined,
              load_banner_calls := [(1, spec_example_config)]\<rparr>) \<and>
   banner_phase_of \<lparr>loaded_ref = False, effect_deps = 0\<rparr> \<le>
     banner_phase_of \<lparr>loaded_ref = True, effect_deps = 2\<rparr>"
proof -
  have run: "run_events host_step
     [Rerender 1 spec_example_config, SetPrivacyBanner PBUndefined, Rerender 2 spec_example_config]
     (fresh_mounted banner_ready False) =
     Some ((fresh_mounted banner_ready False)
             \<lparr>mounted_instance := Some \<lparr>loaded_ref = True, effect_deps = 2\<rparr>,
              window_privacy_banner := PBUndefined,
              load_banner_calls := [(1, spec_example_config)]\<rparr>)"
    by (simp add: fresh_mounted_def host_eval_simps)
  have "banner_phase_of \<lparr>loaded_ref = False, effect_deps = 0\<rparr> \<le>
          banner_phase_of \<lparr>loaded_ref = True, effect_deps = 2\<rparr>"
    by (rule phase_monotone_within_mount [OF run]) (simp_all add: fresh_mounted_def)
  with run show ?thesis by simp
qed

end
