(* ===== verification/Homepage.thy ===== *)
theory Homepage
  imports Prelude
begin

text \<open>
  The demo route \<open>src/app/routes/_index.tsx\<close>: the element tree \<open>Homepage\<close> returns
  (lines 1--17), and what a browser does with its link. The browser part, resolving a
  path-absolute reference such as \<open>/?preview_privacy_banner=1\<close> against the current
  URL (RFC 3986, section 5.2.2) and reading a query parameter as
  \<open>URLSearchParams.get\<close> does, is not code of this repository and is modelled from
  the spec and those standards: the reference's path, query and fragment replace the
  current ones, and only scheme and host are kept. Percent-decoding and the removal
  of dot segments are left out; the route's link has neither.
\<close>

subsection \<open>The element tree\<close>

datatype jsx =
    Elem string "(string \<times> string) list" "jsx list"  \<comment> \<open>tag, attributes, children\<close>
  | Txt string

definition homepage :: jsx where
  "homepage =
     Elem ''div'' [(''style'', ''padding: 20px'')]
       [Elem ''h1'' [] [Txt ''Shopify Cookie Consent Banner''],
        Elem ''p'' []
          [Txt ''To force the consent banner, append'', Txt '' '',
           Elem ''code'' [] [Txt ''?preview_privacy_banner=1''],
           Txt '' to the url or click'', Txt '' '',
           Elem ''a'' [(''style'', ''text-decoration: underline''),
                       (''href'', ''/?preview_privacy_banner=1'')]
             [Txt ''here'']]]"

text \<open>Observers: the \<open>href\<close>s of the links and the text of the elements with a tag.\<close>

fun links :: "jsx \<Rightarrow> string list" where
  "links (Txt _) = []"
| "links (Elem tag attrs cs) =
     (if tag = ''a'' then map snd (filter (\<lambda>a. fst a = ''href'') attrs) else []) @
     concat (map links cs)"

fun text_of :: "jsx \<Rightarrow> string" where
  "text_of (Txt t) = t"
| "text_of (Elem _ _ cs) = concat (map text_of cs)"

fun element_texts :: "string \<Rightarrow> jsx \<Rightarrow> string list" where
  "element_texts t (Txt _) = []"
| "element_texts t (Elem tag _ cs) =
     (if tag = t then [text_of (Elem tag [] cs)] else []) @ concat (map (element_texts t) cs)"

subsection \<open>URLs\<close>

record url =
  url_scheme :: string
  url_host :: string
  url_path :: string
  url_query :: "string option"     \<comment> \<open>without the \<open>?\<close>\<close>
  url_fragment :: "string option"  \<comment> \<open>without the \<open>#\<close>\<close>

text \<open>Split at the first occurrence of a character: before it, and after it if it occurs.\<close>

definition split_first :: "char \<Rightarrow> string \<Rightarrow> string \<times> string option" where
  "split_first c s =
     (takeWhile (\<lambda>x. x \<noteq> c) s,
      if c \<in> set s then Some (tl (dropWhile (\<lambda>x. x \<noteq> c) s)) else None)"

text \<open>
  Resolution of a reference against the current URL. Only path-absolute references
  (a \<open>/\<close> not followed by another) are modelled; any other form is \<open>None\<close>.
\<close>

definition resolve_href :: "url \<Rightarrow> string \<Rightarrow> url option" where
  "resolve_href base href =
     (if take 1 href = ''/'' \<and> take 2 href \<noteq> ''//''
      then (let (rest, frag) = split_first (CHR ''#'') href;
                (path, query) = split_first (CHR ''?'') rest
            in Some (base\<lparr>url_path := path, url_query := query, url_fragment := frag\<rparr>))
      else None)"

text \<open>
  The \<open>application/x-www-form-urlencoded\<close> parser behind \<open>URLSearchParams\<close>: split
  on \<open>&\<close>, drop empty pieces, split each at its first \<open>=\<close> (a missing value is the
  empty string). \<open>get\<close> returns the first value of a name.
\<close>

fun split_on :: "char \<Rightarrow> string \<Rightarrow> string list" where
  "split_on c [] = [[]]"
| "split_on c (x # xs) =
     (let ws = split_on c xs in if x = c then [] # ws else (x # hd ws) # tl ws)"

definition search_params :: "string \<Rightarrow> (string \<times> string) list" where
  "search_params q =
     map (\<lambda>p. case split_first (CHR ''='') p of (n, v) \<Rightarrow> (n, case v of None \<Rightarrow> [] | Some w \<Rightarrow> w))
       (filter (\<lambda>p. p \<noteq> []) (split_on (CHR ''&'') q))"

definition get_param :: "string \<Rightarrow> url \<Rightarrow> string option" where
  "get_param name u =
     (case url_query u of None \<Rightarrow> None | Some q \<Rightarrow> map_of (search_params q) name)"

subsection \<open>Helper facts\<close>

lemma links_homepage: "links homepage = [''/?preview_privacy_banner=1'']"
  by (simp add: homepage_def)

lemma resolve_preview_href:
  "resolve_href base ''/?preview_privacy_banner=1'' =
     Some (base\<lparr>url_path := ''/'', url_query := Some ''preview_privacy_banner=1'',
                 url_fragment := None\<rparr>)"
  by (simp add: resolve_href_def split_first_def)

subsection \<open>The link against the spec\<close>

text \<open>
  The spec says the link adds \<open>preview_privacy_banner=1\<close> to the current URL. The
  link is path-absolute: following it from any page keeps only scheme and host, sets
  the path to \<open>/\<close> and replaces the whole query and the fragment, so every other
  parameter of the current page is dropped.
\<close>

lemma preview_link_replaces_path_and_query:
  "map (resolve_href base) (links homepage) =
     [Some \<lparr>url_scheme = url_scheme base, url_host = url_host base, url_path = ''/'',
            url_query = Some ''preview_privacy_banner=1'', url_fragment = None\<rparr>]"
  by (simp add: links_homepage resolve_preview_href)

end
