(* ===== verification/Spec2Isabelle.thy ===== *)
theory Spec2Isabelle
  imports React_Host Homepage
begin

text \<open>
  \<^bold>\<open>A verification development for hydrogen-customer-privacy-api.\<close>

  \<^bold>\<open>The program.\<close> The repository is a Shopify Hydrogen storefront with two source
  files. \<open>src/app/components/ShopifyCookieBanner.tsx\<close> defines the React component
  \<open>ShopifyCookieBanner\<close>: it renders Hydrogen's \<open>Script\<close> element for Shopify's
  privacy-banner script, and in a \<open>useEffect\<close> keyed on its props it calls the
  global \<open>window.privacyBanner.loadBanner(props)\<close> once the global is there, using
  a ref \<open>loaded\<close> so that one mounted instance calls it at most once.
  \<open>src/app/routes/_index.tsx\<close> is a static demo page whose link adds
  \<open>?preview_privacy_banner=1\<close> to the URL. The parts interact through the browser:
  the component inserts the script, the script (external code) assigns the global, and
  React re-runs the effect on re-renders with a new props object.

  \<^bold>\<open>Theories and what they model.\<close>
  \<^item> \<open>Prelude\<close>: the lemma collections \<open>effect_simps\<close> and \<open>host_simps\<close>, the type
    names \<open>obj_ref\<close> and \<open>generation\<close>, and \<open>run_events\<close>, the run of any
    option-valued step function over a list of events, with its generic lemmas
    (\<open>run_events_preserves\<close> for invariants, \<open>run_events_rel\<close> for frame conditions
    over runs of restricted events).
  \<^item> \<open>Banner_Types\<close>: the record \<open>privacy_consent_banner_props\<close>
    (\<open>PrivacyConsentBannerProps\<close>, lines 12--17) and the run-time value of
    \<open>window.privacyBanner\<close> (the \<open>declare global\<close> block, lines 4--10) as the datatype
    \<open>privacy_banner_value\<close>, with the JavaScript semantics of the two expressions the
    component evaluates on it: \<open>js_truthy\<close> (\<open>!window?.privacyBanner\<close>) and
    \<open>optional_load_banner_call\<close> (\<open>window?.privacyBanner?.loadBanner(props)\<close>, which
    short-circuits on a nullish value and throws a \<open>TypeError\<close> on a non-function).
  \<^item> \<open>Cookie_Banner\<close>: the effect body (lines 29--35) as
    \<open>shopify_cookie_banner_effect\<close>, a function of the global, the ref and the props
    that returns the status (\<open>Inl\<close> of an \<open>effect_error\<close> for an exception), the
    ref's new value and the arguments \<open>loadBanner\<close> was called with; and the rendered
    element (lines 38--44) as \<open>consent_script\<close>.
  \<^item> \<open>React_Host\<close>: the component as React runs it (lines 26--45 as a whole). The
    state \<open>host_state\<close> holds the mounted instance (its ref, line 27, and the props
    object its effect last ran with, line 35), the global, the log of \<open>loadBanner\<close>
    calls tagged with their mount, the uncaught errors and the document's scripts (a
    \<open>script\<close> element React inserts on the client is inert, so inserting it requests
    nothing; the external script's effect is the \<open>SetPrivacyBanner\<close> event). \<open>host_step\<close> handles \<open>Mount\<close>, \<open>Rerender\<close>, \<open>Unmount\<close> and
    \<open>SetPrivacyBanner\<close> (the external script assigning the global); \<open>None\<close> is an
    event the host cannot receive (a re-render when nothing is mounted).
    \<open>reachable\<close> is the inductive set of states reachable from a document without the
    consent script. The two-phase contract of the spec is \<open>phase_step\<close> on
    \<open>banner_phase\<close>.
  \<^item> \<open>Homepage\<close>: the route's element tree (\<open>src/app/routes/_index.tsx\<close>, lines
    1--17) as the datatype \<open>jsx\<close> and the constant \<open>homepage\<close>; from the spec and the
    URL standards, \<open>resolve_href\<close> (a path-absolute link resolved against the current
    URL) and \<open>get_param\<close> (\<open>URLSearchParams.get\<close> over \<open>search_params\<close>).

  \<^bold>\<open>What is proved.\<close> The properties are numbered as claims C1, C2, ...
  \<^item> Safety and invariants (\<open>React_Host\<close>): at most one \<open>loadBanner\<close> call per
    mount in every reachable state (C1), and the ref is set exactly when the current
    mount has called \<open>loadBanner\<close> (C6). Both come from one inductive invariant
    \<open>host_inv\<close>, preserved by every step (\<open>host_step_inv\<close>). While the initializer is
    absent, no run of events calls it or sets any mounted instance's ref (C4).
  \<^item> Functional behaviour on every branch: the first re-render with a new props object
    while the initializer is present calls it once with that render's props (C2);
    after that, re-renders do nothing (C3); a remount calls it again (C5); a
    non-function \<open>loadBanner\<close> and a throwing one both surface as uncaught errors that
    unmount the component, the first before and the second after the call (C7, C8);
    if the global appears and the parent re-renders only with the same props object,
    the banner is never loaded (C9).
  \<^item> Refinement: every step of a mounted instance is a step of the two-phase machine
    of the spec (C10), and over any run within one mount the phase, ordered by the
    \<open>linorder\<close> instance of \<open>banner_phase\<close>, never decreases (C12).
  \<^item> Across components (this theory): the N-renders scenario of the spec's
    section 8, for any number of re-renders before and after the initializer appears
    (C11).
  \<^item> The route (\<open>Homepage\<close>): the lemma \<open>preview_link_replaces_path_and_query\<close>
    records that the link replaces the current path and query rather than adding to
    them, against the spec's wording.

  \<^bold>\<open>Modelling choices.\<close> React, Hydrogen's \<open>Script\<close> and the browser are not code of
  this repository; their behaviour is modelled from the spec and React's documented
  semantics, and marked so in the manifest. An effect's commit and run are one atomic
  step, since nothing between them reads the component's state. An exception in an
  effect unmounts the component (React unmounts the tree, or an error boundary
  replaces it). Props objects are compared by identity (\<open>obj_ref\<close>), as
  \<open>Object.is\<close> does. There are no loops and no machine integers in the program, so no
  fuel and no words are needed: every definition is total and executable, and the
  witnesses evaluate them by \<open>simp\<close>.

  \<^bold>\<open>Not modelled.\<close> Server-side rendering and hydration (the effect does not run
  on the server; a server-rendered script element is adopted, not inserted), React's
  development-mode double invocation of effects, the CSP nonce that \<open>Script\<close> adds,
  what \<open>loadBanner\<close> does inside (it is opaque: it returns or throws), and the
  styling of the demo page.

  \<^bold>\<open>Plan.\<close> Modelled so far, in order of importance: the effect and its guard, the
  component's lifecycle under React (ref, dependency, mount, unmount, exceptions), the
  script element, and the demo route with its link. Further work, in this order:
  \<^enum> split a render's commit from the flush of its effect and prove that an
    assignment to the global between the two has the effect of one before the commit
    (a commutation lemma that justifies the atomic step used here);
  \<^enum> React's development-mode replay of effects with the ref preserved, and that
    C1 and C6 still hold under it.
\<close>

section \<open>Scenarios across components\<close>

text \<open>
  C11. If the initializer is absent during any number of re-renders, then appears, the
  first re-render with a new props object after that calls \<open>loadBanner\<close> exactly
  once, with that render's props, and no later re-render calls it again.
\<close>

theorem initializer_appears_after_renders:
  assumes "mounted_instance s = Some i" and "\<not> loaded_ref i"
    and "\<not> js_truthy (window_privacy_banner s)"
    and "run_events host_step (map (case_prod Rerender) before) s = Some s1"
    and "host_step (SetPrivacyBanner banner_ready) s1 = Some s2"
    and "mounted_instance s2 = Some i2" and "pid \<noteq> effect_deps i2"
    and "host_step (Rerender pid props) s2 = Some s3"
    and "run_events host_step (map (case_prod Rerender) after) s3 = Some s4"
  shows "load_banner_calls s1 = load_banner_calls s \<and>
         load_banner_calls s4 = load_banner_calls s @ [(mount_count s, props)]"
proof -
  from rerenders_while_absent [OF assms(4,1-3)] obtain i1 where
    i1: "mounted_instance s1 = Some i1" "\<not> loaded_ref i1"
      "load_banner_calls s1 = load_banner_calls s" "mount_count s1 = mount_count s"
    by blast
  with assms(5,6) have s2: "s2 = s1\<lparr>window_privacy_banner := banner_ready\<rparr>" "i2 = i1"
    by auto
  with assms(7) i1 have s3: "s3 = s2\<lparr>mounted_instance :=
        Some (i1\<lparr>effect_deps := pid, loaded_ref := True\<rparr>),
      load_banner_calls := load_banner_calls s2 @ [(mount_count s2, props)]\<rparr>"
    using assms(8) by (simp add: commit_effect_fresh)
  then have "mounted_instance s3 = Some (i1\<lparr>effect_deps := pid, loaded_ref := True\<rparr>)"
    and "loaded_ref (i1\<lparr>effect_deps := pid, loaded_ref := True\<rparr>)"
    by simp_all
  from rerenders_after_loaded [OF assms(9) this] s3 s2 i1
  show ?thesis by simp
qed

theorem initializer_appears_after_renders_witness:
  "load_banner_calls (the (run_events host_step
      [Rerender 2 spec_example_config, Rerender 3 spec_example_config]
      (fresh_mounted PBUndefined False))) = [] \<and>
   load_banner_calls (the (run_events host_step
      [Rerender 2 spec_example_config, Rerender 3 spec_example_config,
       SetPrivacyBanner banner_ready, Rerender 4 spec_example_config,
       Rerender 5 spec_example_config]
      (fresh_mounted PBUndefined False))) = [(1, spec_example_config)]"
proof -
  let ?s = "fresh_mounted PBUndefined False"
  let ?s1 = "?s\<lparr>mounted_instance := Some \<lparr>loaded_ref = False, effect_deps = 3\<rparr>\<rparr>"
  let ?s2 = "?s1\<lparr>window_privacy_banner := banner_ready\<rparr>"
  let ?s3 = "?s2\<lparr>mounted_instance := Some \<lparr>loaded_ref = True, effect_deps = 4\<rparr>,
                  load_banner_calls := [(1, spec_example_config)]\<rparr>"
  let ?s4 = "?s3\<lparr>mounted_instance := Some \<lparr>loaded_ref = True, effect_deps = 5\<rparr>\<rparr>"
  have r1: "run_events host_step
              (map (case_prod Rerender) [(2, spec_example_config), (3, spec_example_config)]) ?s =
            Some ?s1"
    by (simp add: fresh_mounted_def host_eval_simps)
  have r2: "host_step (SetPrivacyBanner banner_ready) ?s1 = Some ?s2"
    by simp
  have m2: "mounted_instance ?s2 = Some \<lparr>loaded_ref = False, effect_deps = 3\<rparr>"
    by simp
  have r3: "host_step (Rerender 4 spec_example_config) ?s2 = Some ?s3"
    by (simp add: fresh_mounted_def host_eval_simps)
  have r4: "run_events host_step (map (case_prod Rerender) [(5, spec_example_config)]) ?s3 =
            Some ?s4"
    by (simp add: fresh_mounted_def host_eval_simps)
  have res: "load_banner_calls ?s1 = load_banner_calls ?s \<and>
             load_banner_calls ?s4 = load_banner_calls ?s @ [(mount_count ?s, spec_example_config)]"
    by (rule initializer_appears_after_renders [OF _ _ _ r1 r2 m2 _ r3 r4,
          of "\<lparr>loaded_ref = False, effect_deps = 0\<rparr>"])
       (simp_all add: fresh_mounted_def)
  have e1: "the (run_events host_step
              [Rerender 2 spec_example_config, Rerender 3 spec_example_config] ?s) = ?s1"
    by (simp add: fresh_mounted_def host_eval_simps)
  have e4: "the (run_events host_step
              [Rerender 2 spec_example_config, Rerender 3 spec_example_config,
               SetPrivacyBanner banner_ready, Rerender 4 spec_example_config,
               Rerender 5 spec_example_config] ?s) = ?s4"
    by (simp add: fresh_mounted_def host_eval_simps)
  show ?thesis using res by (simp only: e1 e4) (simp add: fresh_mounted_def)
qed

end
